theory Spec2Isabelle
  imports Main
begin

section \<open>Expressions, errors and the evaluation state\<close>

text \<open>
  Mathics expressions as far as the builtins of \<^verbatim>\<open>mathics/builtin/system.py\<close> build
  and inspect them: the atoms \<^verbatim>\<open>Integer\<close>, \<^verbatim>\<open>String\<close> and \<^verbatim>\<open>Symbol\<close>
  (a symbol is its fully-qualified name), and compound expressions with a head and
  an ordered list of elements. A Python \<^verbatim>\<open>str\<close> is modelled by the bytes of its UTF-8
  form. A \<^verbatim>\<open>str\<close> can hold a lone surrogate code point (U+D800 to U+DFFF); it is
  written in the three-byte form of the same scheme, a byte \<open>0xED\<close> followed by a
  byte from \<open>0xA0\<close> to \<open>0xBF\<close> and one more byte, so U+D800 is the bytes
  \<open>ED A0 80\<close>.
\<close>

datatype expr =
    Integer int
  | String string
  | Symbol string
  | Expression expr "expr list"

text \<open>The Python exceptions that the modelled code can raise.\<close>

datatype error =
  AttributeError | ValueError | OverflowError | TypeError | UnicodeEncodeError

text \<open>A diagnostic of the message channel: owning symbol, tag, formatted text.\<close>

record message =
  msg_symbol :: string
  msg_tag :: string
  msg_text :: string

text \<open>
  The state the builtins read and write. \<open>out\<close> is the message sink of the
  \<^verbatim>\<open>evaluation\<close> object; the other fields are the parts of Python's \<^verbatim>\<open>sys\<close> and
  \<^verbatim>\<open>os\<close> modules that the builtins query. \<open>int_max_str_digits\<close> is \<open>None\<close> on
  an interpreter without \<^verbatim>\<open>sys.get_int_max_str_digits\<close> (Python before 3.11), where
  reading or calling the attribute raises \<^verbatim>\<open>AttributeError\<close>. The mapping
  \<^verbatim>\<open>os.environ\<close> keeps the variables under encoded names: every lookup first
  encodes the \<^verbatim>\<open>str\<close> key with the process's filesystem encoding, which raises
  \<^verbatim>\<open>UnicodeEncodeError\<close> for a key it cannot encode. \<open>os_encodekey\<close> is that
  encoding and \<open>os_environ\<close> maps the encoded names to the (decoded) values.
\<close>

record evaluation =
  out :: "message list"
  sys_argv :: "string list"
  sys_platform :: string
  sys_maxsize :: int
  os_environ :: "string \<rightharpoonup> string"
  os_encodekey :: "string \<Rightarrow> error + string"
  int_max_str_digits :: "int option"

subsection \<open>Symbols of \<^verbatim>\<open>mathics/core/systemsymbols.py\<close>\<close>

definition SymbolFailed :: expr where
  "SymbolFailed = Symbol ''System`$Failed''"

definition SymbolRule :: expr where
  "SymbolRule = Symbol ''System`Rule''"

definition SymbolList :: expr where
  "SymbolList = Symbol ''System`List''"

definition Integer0 :: expr where
  "Integer0 = Integer 0"

definition ListExpression :: "expr list \<Rightarrow> expr" where
  "ListExpression elements = Expression SymbolList elements"

section \<open>Builtins without arguments\<close>

subsection \<open>\<^verbatim>\<open>$Machine\<close> and \<^verbatim>\<open>$SystemID\<close>\<close>

definition Machine_evaluate :: "evaluation \<Rightarrow> expr" where
  "Machine_evaluate ev = String (sys_platform ev)"

definition SystemID_evaluate :: "evaluation \<Rightarrow> expr" where
  "SystemID_evaluate ev = String (sys_platform ev)"

subsection \<open>\<^verbatim>\<open>$SystemWordLength\<close>\<close>

text \<open>
  \<^verbatim>\<open>size = 128; while not sys.maxsize > 2**size: size >>= 1; return Integer(size << 1)\<close>.
  The loop need not end, so it is a partial function: \<open>None\<close> is "never returns".
  The variable \<^verbatim>\<open>size\<close> (here \<open>sz\<close>) stays non-negative, where \<^verbatim>\<open>size >>= 1\<close>
  is \<open>sz div 2\<close> and \<^verbatim>\<open>size << 1\<close> is \<open>sz * 2\<close>.
\<close>

partial_function (option) word_length_loop :: "int \<Rightarrow> nat \<Rightarrow> nat option" where
  "word_length_loop maxsize sz =
     (if \<not> maxsize > 2 ^ sz then word_length_loop maxsize (sz div 2)
      else Some sz)"

definition SystemWordLength_evaluate :: "evaluation \<Rightarrow> expr option" where
  "SystemWordLength_evaluate ev =
     (case word_length_loop (sys_maxsize ev) 128 of
        None \<Rightarrow> None
      | Some sz \<Rightarrow> Some (Integer (int (sz * 2))))"

text \<open>The sizes the loop visits, in order; from 0 on it stays at 0.\<close>

definition word_length_sizes :: "nat list" where
  "word_length_sizes = [128, 64, 32, 16, 8, 4, 2, 1, 0]"

subsection \<open>\<^verbatim>\<open>$ScriptCommandLine\<close>\<close>

text \<open>\<^verbatim>\<open>list.index\<close>: the first position of the value, or \<^verbatim>\<open>ValueError\<close>.\<close>

fun index :: "'a list \<Rightarrow> 'a \<Rightarrow> error + nat" where
  "index [] v = Inl ValueError"
| "index (x # xs) v =
     (if x = v then Inr 0
      else case index xs v of Inl e \<Rightarrow> Inl e | Inr i \<Rightarrow> Inr (Suc i))"

text \<open>
  \<^verbatim>\<open>to_mathics_list(*parms, elements_conversion_fn=String)\<close> is the list expression of
  the converted elements.
\<close>

definition to_mathics_list :: "'a list \<Rightarrow> ('a \<Rightarrow> expr) \<Rightarrow> expr" where
  "to_mathics_list parms elements_conversion_fn =
     ListExpression (map elements_conversion_fn parms)"

definition ScriptCommandLine_evaluate :: "evaluation \<Rightarrow> expr" where
  "ScriptCommandLine_evaluate ev =
     (case index (sys_argv ev) ''--'' of
        Inl e \<Rightarrow> ListExpression []
      | Inr dash_index \<Rightarrow>
          (let scriptname =
                 (if dash_index = 0 then '''' else sys_argv ev ! (dash_index - 1));
               parms = [scriptname] @ drop (dash_index + 1) (sys_argv ev)
           in to_mathics_list parms String))"

section \<open>The message channel\<close>

text \<open>
  Modelled from the spec: the evaluation object's \<^verbatim>\<open>message\<close> method and the
  formatting of message templates are not among the sources. The spec's
  \<^verbatim>\<open>emit(symbol, tag, formatted_args)\<close> appends a diagnostic to the sink and does
  not alter control flow; a message is (owning symbol, tag, formatted text). The
  text is the symbol's template for the tag with each placeholder
  \<^verbatim>\<open>`k`\<close> (\<open>k\<close> a digit from 1) replaced by the \<open>k\<close>-th argument.
\<close>

definition emit :: "message \<Rightarrow> evaluation \<Rightarrow> evaluation" where
  "emit m ev = ev\<lparr>out := out ev @ [m]\<rparr>"

fun show_nat :: "nat \<Rightarrow> string" where
  "show_nat n =
     (if n < 10 then [''0123456789'' ! n]
      else show_nat (n div 10) @ [''0123456789'' ! (n mod 10)])"

declare show_nat.simps [simp del]

definition show_int :: "int \<Rightarrow> string" where
  "show_int i = (if i < 0 then ''-'' @ show_nat (nat (- i)) else show_nat (nat i))"

fun join :: "string \<Rightarrow> string list \<Rightarrow> string" where
  "join sep [] = ''''"
| "join sep [x] = x"
| "join sep (x # y # ys) = x @ sep @ join sep (y # ys)"

fun show_expr :: "expr \<Rightarrow> string" where
  "show_expr (Integer i) = show_int i"
| "show_expr (String s) = s"
| "show_expr (Symbol s) = s"
| "show_expr (Expression h elements) =
     show_expr h @ ''['' @ join '', '' (map show_expr elements) @ '']''"

definition placeholder_index :: "char \<Rightarrow> nat option" where
  "placeholder_index c =
     (case index ''123456789'' c of Inl e \<Rightarrow> None | Inr k \<Rightarrow> Some k)"

fun format_message :: "string \<Rightarrow> expr list \<Rightarrow> string" where
  "format_message (q1 # d # q2 # rest) args =
     (case (if q1 = CHR 0x60 \<and> q2 = CHR 0x60 then placeholder_index d else None) of
        Some k \<Rightarrow>
          (if k < length args then show_expr (args ! k) @ format_message rest args
           else q1 # format_message (d # q2 # rest) args)
      | None \<Rightarrow> q1 # format_message (d # q2 # rest) args)"
| "format_message text args = text"

section \<open>\<^verbatim>\<open>$MaxLengthIntStringConversion\<close>\<close>

text \<open>
  Python's \<^verbatim>\<open>sys.get_int_max_str_digits\<close> and \<^verbatim>\<open>sys.set_int_max_str_digits\<close>.
  Both are missing before Python 3.11 (\<^verbatim>\<open>AttributeError\<close>). The setter converts
  its argument to a C \<^verbatim>\<open>int\<close> (\<^verbatim>\<open>OverflowError\<close> outside 32 bits) and raises
  \<^verbatim>\<open>ValueError\<close> for a value that is neither 0 nor at least the threshold
  \<^verbatim>\<open>sys.int_info.str_digits_check_threshold\<close>, which is 640.
\<close>

definition get_int_max_str_digits :: "evaluation \<Rightarrow> error + int" where
  "get_int_max_str_digits ev =
     (case int_max_str_digits ev of None \<Rightarrow> Inl AttributeError | Some n \<Rightarrow> Inr n)"

definition set_int_max_str_digits :: "int \<Rightarrow> evaluation \<Rightarrow> error + evaluation" where
  "set_int_max_str_digits maxdigits ev =
     (case int_max_str_digits ev of
        None \<Rightarrow> Inl AttributeError
      | Some n \<Rightarrow>
          if maxdigits < - (2 ^ 31) \<or> 2 ^ 31 \<le> maxdigits then Inl OverflowError
          else if maxdigits \<noteq> 0 \<and> maxdigits < 640 then Inl ValueError
          else Inr (ev\<lparr>int_max_str_digits := Some maxdigits\<rparr>))"

text \<open>The class attribute \<^verbatim>\<open>messages\<close>.\<close>

definition MaxLengthIntStringConversion_messages :: "(string \<times> string) list" where
  "MaxLengthIntStringConversion_messages =
     [(''inv'', ''`1` is not 0 or an Integer value >640.'')]"

definition builtin_messages :: "string \<Rightarrow> (string \<times> string) list" where
  "builtin_messages symbol =
     (if symbol = ''$MaxLengthIntStringConversion''
      then MaxLengthIntStringConversion_messages else [])"

text \<open>
  Modelled from the spec: \<^verbatim>\<open>evaluation.message(symbol, tag, *args)\<close> is not among
  the sources. It formats the symbol's template for the tag with the arguments and
  emits the message to the channel; a tag without a template gives the text
  "Message symbol::tag not found.".
\<close>

definition message :: "string \<Rightarrow> string \<Rightarrow> expr list \<Rightarrow> evaluation \<Rightarrow> evaluation" where
  "message symbol tag args ev =
     emit \<lparr>msg_symbol = symbol, msg_tag = tag,
           msg_text =
             (case map_of (builtin_messages symbol) tag of
                Some template \<Rightarrow> format_message template args
              | None \<Rightarrow> ''Message '' @ symbol @ ''::'' @ tag @ '' not found.'')\<rparr> ev"

text \<open>
  \<^verbatim>\<open>evaluate\<close>: the current limit, or \<^verbatim>\<open>Integer0\<close> when the interpreter has no
  such limit (\<^verbatim>\<open>except AttributeError\<close>).
\<close>

definition MaxLengthIntStringConversion_evaluate :: "evaluation \<Rightarrow> error + expr" where
  "MaxLengthIntStringConversion_evaluate ev =
     (case get_int_max_str_digits ev of
        Inr n \<Rightarrow> Inr (Integer n)
      | Inl e \<Rightarrow> if e = AttributeError then Inr Integer0 else Inl e)"

text \<open>
  \<^verbatim>\<open>eval_set\<close>, pattern \<^verbatim>\<open>Set[$MaxLengthIntStringConversion, expr_]\<close>. For an
  \<^verbatim>\<open>Integer\<close> the setter is tried; \<^verbatim>\<open>AttributeError\<close> and \<^verbatim>\<open>ValueError\<close> are
  caught, any other exception propagates. After \<^verbatim>\<open>ValueError\<close>, and for every
  expression that is not an \<^verbatim>\<open>Integer\<close>, control reaches the last two lines.
\<close>

definition eval_set_invalid :: "expr \<Rightarrow> evaluation \<Rightarrow> error + (expr \<times> evaluation)" where
  "eval_set_invalid expr ev =
     (let ev' = message ''$MaxLengthIntStringConversion'' ''inv'' [expr] ev
      in case MaxLengthIntStringConversion_evaluate ev' of
           Inl e \<Rightarrow> Inl e
         | Inr v \<Rightarrow> Inr (v, ev'))"

definition eval_set :: "expr \<Rightarrow> evaluation \<Rightarrow> error + (expr \<times> evaluation)" where
  "eval_set expr ev =
     (case expr of
        Integer val \<Rightarrow>
          (case set_int_max_str_digits val ev of
             Inr ev' \<Rightarrow>
               (case MaxLengthIntStringConversion_evaluate ev' of
                  Inr v \<Rightarrow> Inr (v, ev')
                | Inl e \<Rightarrow>
                    if e = AttributeError
                    then Inr (Integer0,
                           if val \<noteq> 0 \<and> val < 640
                           then message ''$MaxLengthIntStringConversion'' ''inv'' [expr] ev'
                           else ev')
                    else if e = ValueError then eval_set_invalid expr ev'
                    else Inl e)
           | Inl e \<Rightarrow>
               if e = AttributeError
               then Inr (Integer0,
                      if val \<noteq> 0 \<and> val < 640
                      then message ''$MaxLengthIntStringConversion'' ''inv'' [expr] ev
                      else ev)
               else if e = ValueError then eval_set_invalid expr ev
               else Inl e)
      | _ \<Rightarrow> eval_set_invalid expr ev)"

text \<open>
  A call of \<^verbatim>\<open>eval_set\<close> binds the positional arguments \<^verbatim>\<open>expr\<close> and
  \<^verbatim>\<open>evaluation\<close>, both required: a call that leaves \<^verbatim>\<open>evaluation\<close> out raises
  \<^verbatim>\<open>TypeError\<close> before the body runs.
\<close>

definition call_eval_set :: "expr \<Rightarrow> evaluation option \<Rightarrow> error + (expr \<times> evaluation)" where
  "call_eval_set expr evaluation_arg =
     (case evaluation_arg of
        None \<Rightarrow> Inl TypeError
      | Some ev \<Rightarrow> eval_set expr ev)"

text \<open>
  \<^verbatim>\<open>eval_setdelayed\<close>, pattern \<^verbatim>\<open>SetDelayed[$MaxLengthIntStringConversion, expr_]\<close>:
  \<^verbatim>\<open>return self.eval_set(expr)\<close>, a call without the \<^verbatim>\<open>evaluation\<close> argument.
\<close>

definition eval_setdelayed :: "expr \<Rightarrow> evaluation \<Rightarrow> error + (expr \<times> evaluation)" where
  "eval_setdelayed expr ev = call_eval_set expr None"

section \<open>\<^verbatim>\<open>Environment\<close>\<close>

text \<open>
  \<^verbatim>\<open>get_string_value\<close> is the text of a \<^verbatim>\<open>String\<close> and \<^verbatim>\<open>None\<close> for every other
  element; \<^verbatim>\<open>os.environ\<close> refuses a key that is not a string with \<^verbatim>\<open>TypeError\<close>.
\<close>

fun get_string_value :: "expr \<Rightarrow> string option" where
  "get_string_value (String s) = Some s"
| "get_string_value _ = None"

text \<open>
  The key encoding of a POSIX process whose filesystem encoding is UTF-8:
  \<^verbatim>\<open>key.encode('utf-8', 'surrogateescape')\<close>. Every code point but a surrogate keeps
  its UTF-8 bytes. A surrogate from U+DC80 to U+DCFF (second byte \<open>0xB2\<close> or
  \<open>0xB3\<close>) stands for one raw byte from \<open>0x80\<close> to \<open>0xFF\<close> and is encoded
  as that byte; any other surrogate raises \<^verbatim>\<open>UnicodeEncodeError\<close>.
\<close>

definition prepend :: "char \<Rightarrow> error + string \<Rightarrow> error + string" where
  "prepend c r = (case r of Inl e \<Rightarrow> Inl e | Inr bs \<Rightarrow> Inr (c # bs))"

fun fsencode_utf8 :: "string \<Rightarrow> error + string" where
  "fsencode_utf8 (c1 # c2 # c3 # rest) =
     (if c1 = CHR 0xED \<and> (0xA0 :: nat) \<le> of_char c2 \<and> (of_char c2 :: nat) \<le> 0xBF
      then (if c2 = CHR 0xB2 then prepend c3 (fsencode_utf8 rest)
            else if c2 = CHR 0xB3
            then prepend (char_of (of_char c3 + (0x40 :: nat))) (fsencode_utf8 rest)
            else Inl UnicodeEncodeError)
      else prepend c1 (fsencode_utf8 (c2 # c3 # rest)))"
| "fsencode_utf8 s = Inr s"

text \<open>
  \<^verbatim>\<open>Environment.eval\<close>, pattern \<^verbatim>\<open>Environment[var_String]\<close>. Both the test
  \<^verbatim>\<open>env_var not in os.environ\<close> and the lookup \<^verbatim>\<open>os.environ[env_var]\<close> encode the
  key first; the test turns only a missing key (\<^verbatim>\<open>KeyError\<close>) into "not in", so an
  encoding error propagates.
\<close>

definition Environment_eval :: "expr \<Rightarrow> evaluation \<Rightarrow> error + expr" where
  "Environment_eval var ev =
     (case get_string_value var of
        None \<Rightarrow> Inl TypeError
      | Some env_var \<Rightarrow>
          (case os_encodekey ev env_var of
             Inl e \<Rightarrow> Inl e
           | Inr key \<Rightarrow>
               (case os_environ ev key of
                  None \<Rightarrow> Inr SymbolFailed
                | Some val \<Rightarrow> Inr (String val))))"



section \<open>The symbol interner\<close>

text \<open>
  Modelled from the spec: the class \<^verbatim>\<open>Symbol\<close> of \<^verbatim>\<open>mathics.core.symbols\<close> is only
  imported by the sources. The spec's \<^verbatim>\<open>intern(name) -> SymbolId\<close> maps a
  fully-qualified name to a unique, stable identity, creating it on the first call
  and never failing. The interner is a table from names to identities together
  with the next unused identity.
\<close>

record interner =
  table :: "string \<rightharpoonup> nat"
  next_id :: nat

text \<open>
  Modelled from the spec: \<^verbatim>\<open>intern(name)\<close> returns the identity of a name that is
  in the table, and creates the next identity for a name that is not.
\<close>

definition empty_interner :: interner where
  "empty_interner = \<lparr>table = Map.empty, next_id = 0\<rparr>"

definition intern :: "string \<Rightarrow> interner \<Rightarrow> nat \<times> interner" where
  "intern name it =
     (case table it name of
        Some i \<Rightarrow> (i, it)
      | None \<Rightarrow>
          (next_id it,
           it\<lparr>table := (table it)(name \<mapsto> next_id it), next_id := Suc (next_id it)\<rparr>))"

text \<open>A session's sequence of \<open>intern\<close> calls, with the identity each call returns.\<close>

fun intern_all :: "string list \<Rightarrow> interner \<Rightarrow> nat list \<times> interner" where
  "intern_all [] it = ([], it)"
| "intern_all (name # names) it =
     (let (i, it') = intern name it;
          (ids, it'') = intern_all names it'
      in (i # ids, it''))"

definition interner_ok :: "interner \<Rightarrow> bool" where
  "interner_ok it \<longleftrightarrow>
     inj_on (table it) (dom (table it)) \<and> (\<forall>i \<in> ran (table it). i < next_id it)"

section \<open>The definition store, registration and dispatch\<close>

text \<open>
  Modelled from the spec: the definition store, rule registration and the dispatch
  engine are not among the sources, which hold only builtins that are registered
  with them. A symbol is identified by its fully-qualified name. A pattern is a
  structural matcher over an expression together with its position class; the
  general matching algorithm is outside the spec, so a pattern carries its matcher.
  A handler takes the bindings and the evaluation context and produces a replacement
  expression, "unchanged", or a signal to emit a message and fail; it may also raise.
\<close>

type_synonym symbol = string

type_synonym bindings = "(string \<times> expr) list"

datatype attribute =
  Constant | Orderless | Flat | HoldAll | HoldFirst | HoldRest | Protected

datatype position = Own | Down | Sub | Up

datatype rewrite_result = Rewritten expr | Unchanged | Failed message

type_synonym handler =
  "bindings \<Rightarrow> evaluation \<Rightarrow> error + (rewrite_result \<times> evaluation)"

record pattern =
  position_class :: position
  matches :: "expr \<Rightarrow> bindings option"

record rule =
  rule_pattern :: pattern
  rule_handler :: handler

record Definition =
  attributes :: "attribute set"
  ownvalues :: "rule list"
  downvalues :: "rule list"
  subvalues :: "rule list"
  upvalues :: "rule list"

type_synonym store = "symbol \<rightharpoonup> Definition"

text \<open>
  Modelled from the spec: \<^verbatim>\<open>get_or_create(symbol)\<close> creates an empty definition,
  without attributes and rules, on first access; \<^verbatim>\<open>set_attributes\<close> and
  \<^verbatim>\<open>get_attributes\<close> write and read the attribute set of the symbol's definition.
\<close>

definition empty_Definition :: Definition where
  "empty_Definition =
     \<lparr>attributes = {}, ownvalues = [], downvalues = [], subvalues = [], upvalues = []\<rparr>"

definition get_or_create :: "symbol \<Rightarrow> store \<Rightarrow> Definition \<times> store" where
  "get_or_create symbol st =
     (case st symbol of
        Some d \<Rightarrow> (d, st)
      | None \<Rightarrow> (empty_Definition, st(symbol \<mapsto> empty_Definition)))"

definition set_attributes :: "symbol \<Rightarrow> attribute set \<Rightarrow> store \<Rightarrow> store" where
  "set_attributes symbol attrs st =
     (let (d, st') = get_or_create symbol st
      in st'(symbol \<mapsto> d\<lparr>attributes := attrs\<rparr>))"

definition get_attributes :: "symbol \<Rightarrow> store \<Rightarrow> attribute set" where
  "get_attributes symbol st = attributes (fst (get_or_create symbol st))"

text \<open>
  Modelled from the spec: \<^verbatim>\<open>clear(symbol)\<close> removes all rules and resets the
  attributes of the symbol's definition.
\<close>

definition clear :: "symbol \<Rightarrow> store \<Rightarrow> store" where
  "clear symbol st = st(symbol \<mapsto> empty_Definition)"

definition rules_at :: "position \<Rightarrow> Definition \<Rightarrow> rule list" where
  "rules_at pos d =
     (case pos of
        Own \<Rightarrow> ownvalues d
      | Down \<Rightarrow> downvalues d
      | Sub \<Rightarrow> subvalues d
      | Up \<Rightarrow> upvalues d)"

definition add_rule :: "rule \<Rightarrow> Definition \<Rightarrow> Definition" where
  "add_rule r d =
     (case position_class (rule_pattern r) of
        Own \<Rightarrow> d\<lparr>ownvalues := ownvalues d @ [r]\<rparr>
      | Down \<Rightarrow> d\<lparr>downvalues := downvalues d @ [r]\<rparr>
      | Sub \<Rightarrow> d\<lparr>subvalues := subvalues d @ [r]\<rparr>
      | Up \<Rightarrow> d\<lparr>upvalues := upvalues d @ [r]\<rparr>)"

text \<open>
  Modelled from the spec: \<^verbatim>\<open>register(symbol, pattern, handler)\<close> appends the rule
  to the list chosen by the pattern's position class; the same pattern registered
  twice gives two entries.
\<close>

definition register :: "symbol \<Rightarrow> rule \<Rightarrow> store \<Rightarrow> store" where
  "register symbol r st =
     (let (d, st') = get_or_create symbol st
      in st'(symbol \<mapsto> add_rule r d))"

text \<open>
  Modelled from the spec: step 1 of dispatch classifies the call by the position of
  the symbol in the expression. A bare symbol is consulted for own-values, a symbol
  that is the head for down-values, a symbol at the root of a compound head for
  sub-values, and any other for up-values.
\<close>

fun root_head :: "expr \<Rightarrow> string option" where
  "root_head (Symbol s) = Some s"
| "root_head (Expression h elements) = root_head h"
| "root_head _ = None"

fun classify :: "symbol \<Rightarrow> expr \<Rightarrow> position" where
  "classify symbol (Symbol s) = (if s = symbol then Own else Up)"
| "classify symbol (Expression (Symbol s) elements) = (if s = symbol then Down else Up)"
| "classify symbol (Expression (Expression h hs) elements) =
     (if root_head h = Some symbol then Sub else Up)"
| "classify symbol _ = Up"

text \<open>
  Modelled from the spec: the return value of the invoked handler is the dispatch
  result; a signalled failure is surfaced through the message channel and stays a
  result, not an exception.
\<close>

definition invoke :: "handler \<Rightarrow> bindings \<Rightarrow> evaluation \<Rightarrow> error + (rewrite_result \<times> evaluation)" where
  "invoke h b ctx =
     (case h b ctx of
        Inl e \<Rightarrow> Inl e
      | Inr (res, ctx') \<Rightarrow>
          (case res of
             Failed m \<Rightarrow> Inr (Failed m, emit m ctx')
           | _ \<Rightarrow> Inr (res, ctx')))"

text \<open>
  Modelled from the spec: steps 2 to 4 of dispatch walk the rule list in order; the
  first rule whose pattern matches has its handler invoked and no further rule is
  tried; without a match the result is \<open>Unchanged\<close>.
\<close>

fun dispatch_rules :: "rule list \<Rightarrow> expr \<Rightarrow> evaluation \<Rightarrow> error + (rewrite_result \<times> evaluation)" where
  "dispatch_rules [] e ctx = Inr (Unchanged, ctx)"
| "dispatch_rules (r # rs) e ctx =
     (case matches (rule_pattern r) e of
        Some b \<Rightarrow> invoke (rule_handler r) b ctx
      | None \<Rightarrow> dispatch_rules rs e ctx)"

definition dispatch :: "store \<Rightarrow> symbol \<Rightarrow> expr \<Rightarrow> evaluation \<Rightarrow> error + (rewrite_result \<times> evaluation)" where
  "dispatch st symbol e ctx =
     (case st symbol of
        None \<Rightarrow> Inr (Unchanged, ctx)
      | Some d \<Rightarrow> dispatch_rules (rules_at (classify symbol e) d) e ctx)"

text \<open>A sequence of registrations, in order, and the rules a symbol has in a position.\<close>

fun register_all :: "(symbol \<times> rule) list \<Rightarrow> store \<Rightarrow> store" where
  "register_all [] st = st"
| "register_all ((symbol, r) # regs) st = register_all regs (register symbol r st)"

definition rules_of :: "store \<Rightarrow> symbol \<Rightarrow> position \<Rightarrow> rule list" where
  "rules_of st symbol pos = rules_at pos (fst (get_or_create symbol st))"

section \<open>The builtins as registered rules\<close>

text \<open>
  Modelled from the spec: how the builtin classes are turned into rules is not among
  the sources. The pattern of a builtin method is its docstring. \<^verbatim>\<open>Environment[var_String]\<close>
  is a down-value pattern of \<^verbatim>\<open>Environment\<close>; the two patterns
  \<^verbatim>\<open>Set[$MaxLengthIntStringConversion, expr_]\<close> and
  \<^verbatim>\<open>SetDelayed[$MaxLengthIntStringConversion, expr_]\<close> have the constant as an
  argument, so they are up-value patterns of the constant. A method is called with
  the bound variables as keyword arguments (a missing one is a \<^verbatim>\<open>TypeError\<close>) and
  its return value replaces the expression.
\<close>

fun Environment_matches :: "expr \<Rightarrow> bindings option" where
  "Environment_matches (Expression (Symbol h) [String s]) =
     (if h = ''System`Environment'' then Some [(''var'', String s)] else None)"
| "Environment_matches _ = None"

fun Set_matches :: "expr \<Rightarrow> bindings option" where
  "Set_matches (Expression (Symbol h) [Symbol c, expr]) =
     (if h = ''System`Set'' \<and> c = ''System`$MaxLengthIntStringConversion''
      then Some [(''expr'', expr)] else None)"
| "Set_matches _ = None"

fun SetDelayed_matches :: "expr \<Rightarrow> bindings option" where
  "SetDelayed_matches (Expression (Symbol h) [Symbol c, expr]) =
     (if h = ''System`SetDelayed'' \<and> c = ''System`$MaxLengthIntStringConversion''
      then Some [(''expr'', expr)] else None)"
| "SetDelayed_matches _ = None"

definition Environment_handler :: handler where
  "Environment_handler b ctx =
     (case map_of b ''var'' of
        None \<Rightarrow> Inl TypeError
      | Some var \<Rightarrow>
          (case Environment_eval var ctx of
             Inl e \<Rightarrow> Inl e
           | Inr v \<Rightarrow> Inr (Rewritten v, ctx)))"

definition method_handler ::
  "(expr \<Rightarrow> evaluation \<Rightarrow> error + (expr \<times> evaluation)) \<Rightarrow> handler" where
  "method_handler f b ctx =
     (case map_of b ''expr'' of
        None \<Rightarrow> Inl TypeError
      | Some expr \<Rightarrow>
          (case f expr ctx of
             Inl e \<Rightarrow> Inl e
           | Inr (v, ctx') \<Rightarrow> Inr (Rewritten v, ctx')))"

definition Environment_rule :: rule where
  "Environment_rule =
     \<lparr>rule_pattern = \<lparr>position_class = Down, matches = Environment_matches\<rparr>,
      rule_handler = Environment_handler\<rparr>"

definition Set_rule :: rule where
  "Set_rule =
     \<lparr>rule_pattern = \<lparr>position_class = Up, matches = Set_matches\<rparr>,
      rule_handler = method_handler eval_set\<rparr>"

definition SetDelayed_rule :: rule where
  "SetDelayed_rule =
     \<lparr>rule_pattern = \<lparr>position_class = Up, matches = SetDelayed_matches\<rparr>,
      rule_handler = method_handler eval_setdelayed\<rparr>"

text \<open>A generic rule that accepts every expression and leaves it unchanged.\<close>

definition catch_all_rule :: rule where
  "catch_all_rule =
     \<lparr>rule_pattern = \<lparr>position_class = Up, matches = (\<lambda>e. Some [])\<rparr>,
      rule_handler = (\<lambda>b ctx. Inr (Unchanged, ctx))\<rparr>"

definition builtin_store :: store where
  "builtin_store =
     register ''System`Environment'' Environment_rule
       (register ''System`$MaxLengthIntStringConversion'' SetDelayed_rule
         (register ''System`$MaxLengthIntStringConversion'' Set_rule
           (set_attributes ''System`$MaxLengthIntStringConversion'' {Constant} Map.empty)))"

section \<open>A concrete process\<close>

text \<open>
  A 64-bit Python 3.11 on Linux with the filesystem encoding UTF-8, started as
  \<^verbatim>\<open>mathics script.m -- a b\<close>.
\<close>

definition example_evaluation :: evaluation where
  "example_evaluation =
     \<lparr>out = [],
      sys_argv = [''mathics'', ''script.m'', ''--'', ''a'', ''b''],
      sys_platform = ''linux'',
      sys_maxsize = 2 ^ 63 - 1,
      os_environ = [''HOME'' \<mapsto> ''/root''],
      os_encodekey = fsencode_utf8,
      int_max_str_digits = Some 4300\<rparr>"

section \<open>Results about the builtins without arguments\<close>

lemma index_not_member: "v \<notin> set xs \<Longrightarrow> index xs v = Inl ValueError"
  by (induction xs) auto

lemma index_first:
  "i < length xs \<Longrightarrow> xs ! i = v \<Longrightarrow> v \<notin> set (take i xs) \<Longrightarrow> index xs v = Inr i"
proof (induction xs arbitrary: i)
  case Nil
  then show ?case by simp
next
  case (Cons x xs)
  show ?case
  proof (cases i)
    case 0
    with Cons.prems show ?thesis by simp
  next
    case (Suc j)
    with Cons.prems have "x \<noteq> v" "j < length xs" "xs ! j = v" "v \<notin> set (take j xs)"
      by auto
    with Cons.IH [of j] Suc show ?thesis by simp
  qed
qed

lemma word_length_loop_stop:
  "maxsize > 2 ^ sz \<Longrightarrow> word_length_loop maxsize sz = Some sz"
  by (subst word_length_loop.simps) simp

lemma word_length_loop_halve:
  "\<not> maxsize > 2 ^ sz \<Longrightarrow>
   word_length_loop maxsize sz = word_length_loop maxsize (sz div 2)"
  by (subst word_length_loop.simps) simp

lemma word_length_loop_find:
  assumes "2 \<le> maxsize"
  shows "word_length_loop maxsize 128 = find (\<lambda>s. maxsize > 2 ^ s) word_length_sizes"
    and "find (\<lambda>s. maxsize > 2 ^ s) word_length_sizes \<noteq> None"
  using assms
  by (simp_all add: word_length_sizes_def word_length_loop_stop word_length_loop_halve)

text \<open>
  Claim C8. Where \<^verbatim>\<open>sys.maxsize\<close> is \<open>2^63 - 1\<close>, \<^verbatim>\<open>$SystemWordLength\<close> evaluates to
  the Integer 64. In general, whenever \<^verbatim>\<open>sys.maxsize\<close> is at least 2 the halving loop
  terminates, and the value is \<open>2 * s\<close> for the first \<open>s\<close> of the sequence
  128, 64, 32, 16, 8, 4, 2, 1, 0 with \<^verbatim>\<open>sys.maxsize > 2^s\<close>.
\<close>

theorem SystemWordLength_evaluate_value:
  "(sys_maxsize ev = 2 ^ 63 - 1 \<longrightarrow> SystemWordLength_evaluate ev = Some (Integer 64)) \<and>
   (2 \<le> sys_maxsize ev \<longrightarrow>
      (\<exists>s. find (\<lambda>s. sys_maxsize ev > 2 ^ s) word_length_sizes = Some s \<and>
           SystemWordLength_evaluate ev = Some (Integer (2 * int s))))"
proof (intro conjI impI)
  assume m: "sys_maxsize ev = 2 ^ 63 - 1"
  then have "2 \<le> sys_maxsize ev" by simp
  from word_length_loop_find(1) [OF this] m
  show "SystemWordLength_evaluate ev = Some (Integer 64)"
    by (simp add: SystemWordLength_evaluate_def word_length_sizes_def)
next
  assume m: "2 \<le> sys_maxsize ev"
  from word_length_loop_find(2) [OF m] obtain s where
    s: "find (\<lambda>s. sys_maxsize ev > 2 ^ s) word_length_sizes = Some s" by blast
  with word_length_loop_find(1) [OF m]
  have "SystemWordLength_evaluate ev = Some (Integer (2 * int s))"
    by (simp add: SystemWordLength_evaluate_def)
  with s show "\<exists>s. find (\<lambda>s. sys_maxsize ev > 2 ^ s) word_length_sizes = Some s \<and>
           SystemWordLength_evaluate ev = Some (Integer (2 * int s))" by blast
qed

theorem SystemWordLength_evaluate_value_witness:
  "sys_maxsize example_evaluation = 2 ^ 63 - 1 \<and>
   2 \<le> sys_maxsize example_evaluation \<and>
   SystemWordLength_evaluate example_evaluation = Some (Integer 64) \<and>
   find (\<lambda>s. sys_maxsize example_evaluation > 2 ^ s) word_length_sizes = Some 32"
  using SystemWordLength_evaluate_value [of example_evaluation]
  by (simp add: example_evaluation_def word_length_sizes_def)

text \<open>
  Claim C9. \<^verbatim>\<open>$Machine\<close> and \<^verbatim>\<open>$SystemID\<close> evaluate to the same String in every
  state: both return the platform identifier.
\<close>

theorem Machine_evaluate_eq_SystemID_evaluate:
  "Machine_evaluate ev = SystemID_evaluate ev \<and> Machine_evaluate ev = String (sys_platform ev)"
  by (simp add: Machine_evaluate_def SystemID_evaluate_def)

text \<open>
  Claim C10. \<^verbatim>\<open>$ScriptCommandLine\<close> is the empty list when \<^verbatim>\<open>--\<close> does not
  occur in the argument vector. When \<^verbatim>\<open>--\<close> occurs first at index \<open>i\<close>, it is the
  list of Strings that starts with argument \<open>i - 1\<close> (the empty string when
  \<open>i = 0\<close>) and continues with every argument after index \<open>i\<close>.
\<close>

theorem ScriptCommandLine_evaluate_value:
  "(''--'' \<notin> set (sys_argv ev) \<longrightarrow> ScriptCommandLine_evaluate ev = ListExpression []) \<and>
   (\<forall>i. i < length (sys_argv ev) \<and> sys_argv ev ! i = ''--'' \<and>
        ''--'' \<notin> set (take i (sys_argv ev)) \<longrightarrow>
        ScriptCommandLine_evaluate ev =
          ListExpression (String (if i = 0 then '''' else sys_argv ev ! (i - 1))
                          # map String (drop (i + 1) (sys_argv ev))))"
proof (intro conjI allI impI)
  assume "''--'' \<notin> set (sys_argv ev)"
  then show "ScriptCommandLine_evaluate ev = ListExpression []"
    by (simp add: ScriptCommandLine_evaluate_def index_not_member)
next
  fix i
  assume "i < length (sys_argv ev) \<and> sys_argv ev ! i = ''--'' \<and>
          ''--'' \<notin> set (take i (sys_argv ev))"
  then have "index (sys_argv ev) ''--'' = Inr i"
    by (simp add: index_first)
  then show "ScriptCommandLine_evaluate ev =
          ListExpression (String (if i = 0 then '''' else sys_argv ev ! (i - 1))
                          # map String (drop (i + 1) (sys_argv ev)))"
    by (simp add: ScriptCommandLine_evaluate_def to_mathics_list_def)
qed

theorem ScriptCommandLine_evaluate_value_witness:
  "ScriptCommandLine_evaluate example_evaluation =
     ListExpression [String ''script.m'', String ''a'', String ''b''] \<and>
   ''--'' \<notin> set [''mathics''] \<and>
   ScriptCommandLine_evaluate (example_evaluation\<lparr>sys_argv := [''mathics'']\<rparr>) =
     ListExpression [] \<and>
   ScriptCommandLine_evaluate (example_evaluation\<lparr>sys_argv := [''--'', ''x'']\<rparr>) =
     ListExpression [String '''', String ''x'']"
  using ScriptCommandLine_evaluate_value [of example_evaluation,
      THEN conjunct2, rule_format, of 2]
    ScriptCommandLine_evaluate_value [of "example_evaluation\<lparr>sys_argv := [''mathics'']\<rparr>",
      THEN conjunct1]
    ScriptCommandLine_evaluate_value [of "example_evaluation\<lparr>sys_argv := [''--'', ''x'']\<rparr>",
      THEN conjunct2, rule_format, of 0]
  by (simp add: example_evaluation_def)

section \<open>Results about \<^verbatim>\<open>$MaxLengthIntStringConversion\<close> and \<^verbatim>\<open>Environment\<close>\<close>

lemma show_int_10: "show_int 10 = ''10''"
  by code_simp

lemma format_inv_10:
  "format_message ''`1` is not 0 or an Integer value >640.'' [Integer 10] =
     ''10 is not 0 or an Integer value >640.''"
  by (simp add: placeholder_index_def show_int_10)

lemma message_inv_10:
  "message ''$MaxLengthIntStringConversion'' ''inv'' [Integer 10] ev =
     ev\<lparr>out := out ev @ [\<lparr>msg_symbol = ''$MaxLengthIntStringConversion'', msg_tag = ''inv'',
        msg_text = ''10 is not 0 or an Integer value >640.''\<rparr>]\<rparr>"
  unfolding message_def emit_def builtin_messages_def MaxLengthIntStringConversion_messages_def
  by (simp del: format_message.simps add: format_inv_10)

text \<open>
  Claim C1. Assigning the integer 10 to \<^verbatim>\<open>$MaxLengthIntStringConversion\<close> returns
  normally (no exception) with the current value of the constant, leaves the limit
  as it was, and appends exactly one message to the channel, whose text is
  "10 is not 0 or an Integer value >640."; this holds on every interpreter, with or
  without the digit limit.
\<close>

theorem eval_set_10_message:
  "\<exists>v. MaxLengthIntStringConversion_evaluate ev = Inr v \<and>
       eval_set (Integer 10) ev =
         Inr (v, ev\<lparr>out := out ev @
                [\<lparr>msg_symbol = ''$MaxLengthIntStringConversion'', msg_tag = ''inv'',
                  msg_text = ''10 is not 0 or an Integer value >640.''\<rparr>]\<rparr>)"
proof (cases "int_max_str_digits ev")
  case None
  then show ?thesis
    by (simp add: eval_set_def set_int_max_str_digits_def message_inv_10
        MaxLengthIntStringConversion_evaluate_def get_int_max_str_digits_def)
next
  case (Some n)
  then show ?thesis
    by (simp add: eval_set_def set_int_max_str_digits_def eval_set_invalid_def message_inv_10
        MaxLengthIntStringConversion_evaluate_def get_int_max_str_digits_def)
qed

lemma builtin_store_MaxLength:
  "builtin_store ''System`$MaxLengthIntStringConversion'' =
     Some (empty_Definition\<lparr>attributes := {Constant}, upvalues := [Set_rule, SetDelayed_rule]\<rparr>)"
  by (simp add: builtin_store_def register_def get_or_create_def set_attributes_def
      add_rule_def Environment_rule_def Set_rule_def SetDelayed_rule_def empty_Definition_def)

text \<open>
  Claim C4. \<^verbatim>\<open>SetDelayed[$MaxLengthIntStringConversion, e]\<close> is meant to behave as
  \<^verbatim>\<open>Set[$MaxLengthIntStringConversion, e]\<close>. The code does not: at \<open>e = 10\<close> the
  method \<^verbatim>\<open>eval_setdelayed\<close> raises \<^verbatim>\<open>TypeError\<close>, also when it is reached
  through its registered rule, where \<^verbatim>\<open>eval_set\<close> returns the current value 4300
  and emits the message.
\<close>

theorem eval_setdelayed_10_raises:
  "eval_setdelayed (Integer 10) example_evaluation = Inl TypeError \<and>
   dispatch builtin_store ''System`$MaxLengthIntStringConversion''
       (Expression (Symbol ''System`SetDelayed'')
          [Symbol ''System`$MaxLengthIntStringConversion'', Integer 10])
       example_evaluation = Inl TypeError \<and>
   eval_set (Integer 10) example_evaluation =
     Inr (Integer 4300, example_evaluation\<lparr>out :=
        [\<lparr>msg_symbol = ''$MaxLengthIntStringConversion'', msg_tag = ''inv'',
          msg_text = ''10 is not 0 or an Integer value >640.''\<rparr>]\<rparr>)"
proof -
  have "eval_setdelayed (Integer 10) example_evaluation = Inl TypeError"
    by (simp add: eval_setdelayed_def call_eval_set_def)
  moreover have "dispatch builtin_store ''System`$MaxLengthIntStringConversion''
       (Expression (Symbol ''System`SetDelayed'')
          [Symbol ''System`$MaxLengthIntStringConversion'', Integer 10])
       example_evaluation = Inl TypeError"
    by (simp add: dispatch_def builtin_store_MaxLength rules_at_def empty_Definition_def
        Set_rule_def SetDelayed_rule_def invoke_def method_handler_def
        eval_setdelayed_def call_eval_set_def)
  moreover have "eval_set (Integer 10) example_evaluation =
     Inr (Integer 4300, example_evaluation\<lparr>out :=
        [\<lparr>msg_symbol = ''$MaxLengthIntStringConversion'', msg_tag = ''inv'',
          msg_text = ''10 is not 0 or an Integer value >640.''\<rparr>]\<rparr>)"
    by (simp add: eval_set_def set_int_max_str_digits_def eval_set_invalid_def message_inv_10
        MaxLengthIntStringConversion_evaluate_def get_int_max_str_digits_def
        example_evaluation_def)
  ultimately show ?thesis by simp
qed

lemma builtin_store_Environment:
  "builtin_store ''System`Environment'' =
     Some (empty_Definition\<lparr>downvalues := [Environment_rule]\<rparr>)"
  by (simp add: builtin_store_def register_def get_or_create_def set_attributes_def
      add_rule_def Environment_rule_def Set_rule_def SetDelayed_rule_def empty_Definition_def)

lemma fsencode_utf8_HOME: "fsencode_utf8 ''HOME'' = Inr ''HOME''"
  by (simp add: prepend_def)



lemma dispatch_Environment:
  "dispatch builtin_store ''System`Environment''
       (Expression (Symbol ''System`Environment'') [String v]) ev =
     (case Environment_eval (String v) ev of
        Inl e \<Rightarrow> Inl e
      | Inr r \<Rightarrow> Inr (Rewritten r, ev))"
  by (simp add: dispatch_def builtin_store_Environment rules_at_def empty_Definition_def
      Environment_rule_def Environment_handler_def invoke_def
      split: sum.splits rewrite_result.splits)




section \<open>Results about the symbol interner\<close>

lemma intern_idem:
  "intern name (snd (intern name it)) = (fst (intern name it), snd (intern name it))"
  by (simp add: intern_def split: option.splits)

lemma intern_ok:
  assumes "interner_ok it" "intern name it = (i, it')"
  shows "interner_ok it'"
    and "table it' name = Some i"
    and "\<And>n k. table it n = Some k \<Longrightarrow> table it' n = Some k"
proof -
  show "table it' name = Some i"
    using assms(2) by (auto simp: intern_def split: option.splits)
  show "\<And>n k. table it n = Some k \<Longrightarrow> table it' n = Some k"
    using assms(2) by (auto simp: intern_def split: option.splits)
  show "interner_ok it'"
  proof (cases "table it name")
    case (Some k)
    with assms show ?thesis by (simp add: intern_def)
  next
    case None
    with assms(2) have it': "it' = it\<lparr>table := (table it)(name \<mapsto> next_id it),
        next_id := Suc (next_id it)\<rparr>"
      by (auto simp: intern_def)
    from assms(1) have inj: "inj_on (table it) (dom (table it))"
      and bound: "\<forall>k \<in> ran (table it). k < next_id it"
      by (simp_all add: interner_ok_def)
    have "inj_on (table it') (dom (table it'))"
    proof (rule inj_onI)
      fix x y
      assume x: "x \<in> dom (table it')" and y: "y \<in> dom (table it')"
        and eq: "table it' x = table it' y"
      show "x = y"
      proof (cases "x = name")
        case True
        show ?thesis
        proof (rule ccontr)
          assume "x \<noteq> y"
          with True eq it' have "table it y = Some (next_id it)" by simp
          then have "next_id it \<in> ran (table it)" by (auto simp: ran_def)
          with bound show False by auto
        qed
      next
        case False
        show ?thesis
        proof (cases "y = name")
          case True
          with False eq it' have "table it x = Some (next_id it)" by simp
          then have "next_id it \<in> ran (table it)" by (auto simp: ran_def)
          with bound show ?thesis by auto
        next
          case yn: False
          with False x y eq it' have "x \<in> dom (table it)" "y \<in> dom (table it)"
            "table it x = table it y" by auto
          with inj show ?thesis by (auto dest: inj_onD)
        qed
      qed
    qed
    moreover have "\<forall>k \<in> ran (table it'). k < next_id it'"
    proof
      fix k assume "k \<in> ran (table it')"
      then obtain n where "table it' n = Some k" by (auto simp: ran_def)
      with it' have "k = next_id it \<or> table it n = Some k"
        by (auto split: if_splits)
      then have "k = next_id it \<or> k \<in> ran (table it)" by (auto simp: ran_def)
      with bound it' show "k < next_id it'" by auto
    qed
    ultimately show ?thesis by (simp add: interner_ok_def)
  qed
qed

lemma intern_all_ok:
  "interner_ok it \<Longrightarrow> intern_all names it = (ids, it') \<Longrightarrow>
   interner_ok it' \<and> length ids = length names \<and>
   (\<forall>n k. table it n = Some k \<longrightarrow> table it' n = Some k) \<and>
   (\<forall>k < length names. table it' (names ! k) = Some (ids ! k))"
proof (induction names arbitrary: it ids it')
  case Nil
  then show ?case by simp
next
  case (Cons name names)
  obtain i it1 where first: "intern name it = (i, it1)" by (cases "intern name it")
  obtain js it2 where rest: "intern_all names it1 = (js, it2)" by (cases "intern_all names it1")
  from Cons.prems(2) first rest have ids: "ids = i # js" and it': "it' = it2" by simp_all
  note ok1 = intern_ok [OF Cons.prems(1) first]
  from Cons.IH [OF ok1(1) rest]
  have ih: "interner_ok it2" "length js = length names"
    "\<forall>n k. table it1 n = Some k \<longrightarrow> table it2 n = Some k"
    "\<forall>k < length names. table it2 (names ! k) = Some (js ! k)"
    by simp_all
  have "\<forall>k < length (name # names). table it2 ((name # names) ! k) = Some ((i # js) ! k)"
  proof (intro allI impI)
    fix k assume "k < length (name # names)"
    then show "table it2 ((name # names) ! k) = Some ((i # js) ! k)"
      using ih(3,4) ok1(2) by (cases k) auto
  qed
  with ih ok1(3) ids it' show ?case by auto
qed

lemma empty_interner_ok: "interner_ok empty_interner"
  by (simp add: interner_ok_def empty_interner_def)

text \<open>
  Claim C6. Interning a name again returns the same identity and leaves the
  interner as it is. Over any sequence of interning calls of a session, two calls
  return the same identity if and only if their names are equal.
\<close>

theorem intern_idempotent_injective:
  "intern name (snd (intern name it)) = (fst (intern name it), snd (intern name it)) \<and>
   (intern_all names empty_interner = (ids, it') \<longrightarrow>
      length ids = length names \<and>
      (\<forall>i < length names. \<forall>j < length names.
          (ids ! i = ids ! j) = (names ! i = names ! j)))"
proof (intro conjI impI allI)
  show "intern name (snd (intern name it)) = (fst (intern name it), snd (intern name it))"
    by (rule intern_idem)
next
  assume run: "intern_all names empty_interner = (ids, it')"
  from intern_all_ok [OF empty_interner_ok run]
  show "length ids = length names" by simp
next
  fix i j
  assume run: "intern_all names empty_interner = (ids, it')"
    and i: "i < length names" and j: "j < length names"
  from intern_all_ok [OF empty_interner_ok run]
  have ok: "interner_ok it'"
    and tab: "\<forall>k < length names. table it' (names ! k) = Some (ids ! k)"
    by simp_all
  from tab i j have ti: "table it' (names ! i) = Some (ids ! i)"
    and tj: "table it' (names ! j) = Some (ids ! j)" by simp_all
  show "(ids ! i = ids ! j) = (names ! i = names ! j)"
  proof
    assume "ids ! i = ids ! j"
    with ti tj have "table it' (names ! i) = table it' (names ! j)" by simp
    moreover from ti tj have "names ! i \<in> dom (table it')" "names ! j \<in> dom (table it')"
      by auto
    ultimately show "names ! i = names ! j"
      using ok by (auto simp: interner_ok_def dest: inj_onD)
  next
    assume "names ! i = names ! j"
    with ti tj show "ids ! i = ids ! j" by simp
  qed
qed

theorem intern_idempotent_injective_witness:
  "intern_all [''System`List'', ''System`Rule'', ''System`List''] empty_interner =
     ([0, 1, 0], \<lparr>table = [''System`List'' \<mapsto> 0, ''System`Rule'' \<mapsto> 1], next_id = 2\<rparr>) \<and>
   [0, 1, 0 :: nat] ! 0 = [0, 1, 0] ! 2 \<and> [0, 1, 0 :: nat] ! 0 \<noteq> [0, 1, 0] ! 1"
  using intern_idempotent_injective [of "''System`List''" empty_interner
      "[''System`List'', ''System`Rule'', ''System`List'']" "[0, 1, 0]"
      "\<lparr>table = [''System`List'' \<mapsto> 0, ''System`Rule'' \<mapsto> 1], next_id = 2\<rparr>"]
  by (simp add: intern_def empty_interner_def fun_upd_twist)

section \<open>Results about the definition store and dispatch\<close>

lemma dispatch_rules_of:
  "dispatch st symbol e ctx = dispatch_rules (rules_of st symbol (classify symbol e)) e ctx"
  by (simp add: dispatch_def rules_of_def get_or_create_def rules_at_def empty_Definition_def
      split: option.splits position.splits)

lemma rules_at_add_rule:
  "rules_at pos (add_rule r d) =
     rules_at pos d @ (if pos = position_class (rule_pattern r) then [r] else [])"
  by (cases pos; cases "position_class (rule_pattern r)") (simp_all add: rules_at_def add_rule_def)

lemma rules_of_register:
  "rules_of (register s r st) symbol pos =
     rules_of st symbol pos @
       (if symbol = s \<and> pos = position_class (rule_pattern r) then [r] else [])"
  by (simp add: rules_of_def register_def get_or_create_def rules_at_add_rule
      split: option.splits)

lemma rules_of_register_all:
  "\<exists>later. rules_of (register_all regs st) symbol pos = rules_of st symbol pos @ later"
proof (induction regs arbitrary: st)
  case Nil
  then show ?case by simp
next
  case (Cons reg regs)
  obtain s r where reg: "reg = (s, r)" by (cases reg)
  from Cons.IH [of "register s r st"] obtain later where
    "rules_of (register_all regs (register s r st)) symbol pos =
       rules_of (register s r st) symbol pos @ later" by blast
  with reg show ?case by (simp add: rules_of_register)
qed

lemma dispatch_rules_first:
  "\<forall>r \<in> set earlier. matches (rule_pattern r) e = None \<Longrightarrow>
   matches (rule_pattern r1) e = Some b \<Longrightarrow>
   dispatch_rules (earlier @ r1 # later) e ctx = invoke (rule_handler r1) b ctx"
  by (induction earlier) simp_all

lemma dispatch_rules_no_match:
  "\<forall>r \<in> set rs. matches (rule_pattern r) e = None \<Longrightarrow>
   dispatch_rules rs e ctx = Inr (Unchanged, ctx)"
  by (induction rs) simp_all

lemma dispatch_rules_some:
  "\<exists>r \<in> set rs. matches (rule_pattern r) e \<noteq> None \<Longrightarrow>
   \<exists>r \<in> set rs. \<exists>b. matches (rule_pattern r) e = Some b \<and>
      dispatch_rules (rs @ later) e ctx = invoke (rule_handler r) b ctx"
proof (induction rs)
  case Nil
  then show ?case by simp
next
  case (Cons r rs)
  show ?case
  proof (cases "matches (rule_pattern r) e")
    case (Some b)
    then show ?thesis by simp
  next
    case None
    with Cons.prems have "\<exists>r \<in> set rs. matches (rule_pattern r) e \<noteq> None" by simp
    from Cons.IH [OF this] None show ?thesis by simp
  qed
qed

text \<open>
  Claim C2. Let \<open>R1\<close> be registered on a symbol, and later \<open>R2\<close>, in the same
  position class, with any registrations in between and afterwards, and let both
  match the expression. Then dispatch invokes the handler of one rule only, a rule
  that was registered no later than \<open>R1\<close> and matches; when no rule registered
  before \<open>R1\<close> matches, that rule is \<open>R1\<close> and the result is exactly what its
  handler gives. Registration order is the only tie-break.
\<close>

theorem dispatch_first_match_wins:
  assumes "position_class (rule_pattern R1) = classify symbol e"
    and "position_class (rule_pattern R2) = classify symbol e"
    and "matches (rule_pattern R1) e = Some b1"
    and "matches (rule_pattern R2) e = Some b2"
  shows "(\<exists>r \<in> set (rules_of st symbol (classify symbol e) @ [R1]). \<exists>b.
            matches (rule_pattern r) e = Some b \<and>
            dispatch (register_all after (register symbol R2
                (register_all between (register symbol R1 st)))) symbol e ctx =
              invoke (rule_handler r) b ctx) \<and>
         ((\<forall>r \<in> set (rules_of st symbol (classify symbol e)).
              matches (rule_pattern r) e = None) \<longrightarrow>
          dispatch (register_all after (register symbol R2
              (register_all between (register symbol R1 st)))) symbol e ctx =
            invoke (rule_handler R1) b1 ctx)"
proof -
  let ?pos = "classify symbol e"
  let ?st1 = "register symbol R1 st"
  from assms(1) have r1: "rules_of ?st1 symbol ?pos = rules_of st symbol ?pos @ [R1]"
    by (simp add: rules_of_register)
  obtain l1 where l1: "rules_of (register_all between ?st1) symbol ?pos =
      rules_of ?st1 symbol ?pos @ l1"
    using rules_of_register_all by blast
  let ?st2 = "register symbol R2 (register_all between ?st1)"
  from assms(2) have r2: "rules_of ?st2 symbol ?pos =
      rules_of (register_all between ?st1) symbol ?pos @ [R2]"
    by (simp add: rules_of_register)
  obtain l2 where l2: "rules_of (register_all after ?st2) symbol ?pos =
      rules_of ?st2 symbol ?pos @ l2"
    using rules_of_register_all by blast
  from r1 l1 r2 l2 have all: "rules_of (register_all after ?st2) symbol ?pos =
      (rules_of st symbol ?pos @ [R1]) @ (l1 @ R2 # l2)" by simp
  have "\<exists>r \<in> set (rules_of st symbol ?pos @ [R1]). matches (rule_pattern r) e \<noteq> None"
    using assms(3) by simp
  from dispatch_rules_some [OF this, of "l1 @ R2 # l2" ctx] all
  have first: "\<exists>r \<in> set (rules_of st symbol ?pos @ [R1]). \<exists>b.
      matches (rule_pattern r) e = Some b \<and>
      dispatch (register_all after ?st2) symbol e ctx = invoke (rule_handler r) b ctx"
    by (simp add: dispatch_rules_of)
  have second: "dispatch (register_all after ?st2) symbol e ctx = invoke (rule_handler R1) b1 ctx"
    if none: "\<forall>r \<in> set (rules_of st symbol ?pos). matches (rule_pattern r) e = None"
    using dispatch_rules_first [OF none assms(3), of "l1 @ R2 # l2" ctx] all
    by (simp add: dispatch_rules_of)
  from first second show ?thesis by blast
qed

theorem dispatch_first_match_wins_witness:
  "position_class (rule_pattern Set_rule) =
     classify ''System`$MaxLengthIntStringConversion''
       (Expression (Symbol ''System`Set'')
          [Symbol ''System`$MaxLengthIntStringConversion'', Integer 10]) \<and>
   matches (rule_pattern Set_rule)
       (Expression (Symbol ''System`Set'')
          [Symbol ''System`$MaxLengthIntStringConversion'', Integer 10]) =
     Some [(''expr'', Integer 10)] \<and>
   matches (rule_pattern catch_all_rule)
       (Expression (Symbol ''System`Set'')
          [Symbol ''System`$MaxLengthIntStringConversion'', Integer 10]) = Some [] \<and>
   dispatch
       (register_all [(''System`Environment'', Environment_rule)]
          (register ''System`$MaxLengthIntStringConversion'' catch_all_rule
             (register_all []
                (register ''System`$MaxLengthIntStringConversion'' Set_rule Map.empty))))
       ''System`$MaxLengthIntStringConversion''
       (Expression (Symbol ''System`Set'')
          [Symbol ''System`$MaxLengthIntStringConversion'', Integer 10])
       example_evaluation =
     Inr (Rewritten (Integer 4300),
          example_evaluation\<lparr>out :=
            [\<lparr>msg_symbol = ''$MaxLengthIntStringConversion'', msg_tag = ''inv'',
              msg_text = ''10 is not 0 or an Integer value >640.''\<rparr>]\<rparr>)"
proof -
  let ?e = "Expression (Symbol ''System`Set'')
          [Symbol ''System`$MaxLengthIntStringConversion'', Integer 10]"
  have run: "invoke (rule_handler Set_rule) [(''expr'', Integer 10)] example_evaluation =
     Inr (Rewritten (Integer 4300),
          example_evaluation\<lparr>out :=
            [\<lparr>msg_symbol = ''$MaxLengthIntStringConversion'', msg_tag = ''inv'',
              msg_text = ''10 is not 0 or an Integer value >640.''\<rparr>]\<rparr>)"
    by (simp add: invoke_def Set_rule_def method_handler_def eval_set_def
        set_int_max_str_digits_def eval_set_invalid_def message_inv_10
        MaxLengthIntStringConversion_evaluate_def get_int_max_str_digits_def
        example_evaluation_def)
  have h1: "position_class (rule_pattern Set_rule) =
      classify ''System`$MaxLengthIntStringConversion'' ?e"
    by (simp add: Set_rule_def)
  have h2: "position_class (rule_pattern catch_all_rule) =
      classify ''System`$MaxLengthIntStringConversion'' ?e"
    by (simp add: catch_all_rule_def)
  have h3: "matches (rule_pattern Set_rule) ?e = Some [(''expr'', Integer 10)]"
    by (simp add: Set_rule_def)
  have h4: "matches (rule_pattern catch_all_rule) ?e = Some []"
    by (simp add: catch_all_rule_def)
  have h5: "\<forall>r \<in> set (rules_of Map.empty ''System`$MaxLengthIntStringConversion''
      (classify ''System`$MaxLengthIntStringConversion'' ?e)). matches (rule_pattern r) ?e = None"
    by (simp add: rules_of_def get_or_create_def rules_at_def empty_Definition_def)
  from dispatch_first_match_wins [OF h1 h2 h3 h4, of Map.empty
      "[(''System`Environment'', Environment_rule)]" "[]" example_evaluation,
      THEN conjunct2, THEN mp, OF h5] run h1 h3 h4
  show ?thesis by simp
qed

text \<open>
  Claim C3. When no rule that the symbol has in the position of the expression
  matches it, dispatch returns \<open>Unchanged\<close> and leaves the evaluation context,
  with its messages, as it was: the expression stays and nothing is emitted.
\<close>

theorem dispatch_no_match_unchanged:
  assumes "\<forall>r \<in> set (rules_of st symbol (classify symbol e)). matches (rule_pattern r) e = None"
  shows "dispatch st symbol e ctx = Inr (Unchanged, ctx)"
  using assms by (simp add: dispatch_rules_of dispatch_rules_no_match)

theorem dispatch_no_match_unchanged_witness:
  "classify ''System`Environment''
       (Expression (Symbol ''System`Environment'') [Integer 5]) = Down \<and>
   rules_of builtin_store ''System`Environment'' Down = [Environment_rule] \<and>
   matches (rule_pattern Environment_rule)
       (Expression (Symbol ''System`Environment'') [Integer 5]) = None \<and>
   dispatch builtin_store ''System`Environment''
       (Expression (Symbol ''System`Environment'') [Integer 5]) example_evaluation =
     Inr (Unchanged, example_evaluation)"
proof -
  have rs: "rules_of builtin_store ''System`Environment'' Down = [Environment_rule]"
    by (simp add: rules_of_def get_or_create_def builtin_store_Environment rules_at_def
        empty_Definition_def)
  have h: "\<forall>r \<in> set (rules_of builtin_store ''System`Environment''
        (classify ''System`Environment''
           (Expression (Symbol ''System`Environment'') [Integer 5]))).
      matches (rule_pattern r) (Expression (Symbol ''System`Environment'') [Integer 5]) = None"
    by (simp add: rs Environment_rule_def)
  from dispatch_no_match_unchanged [OF h, of example_evaluation] rs show ?thesis
    by (simp add: Environment_rule_def)
qed

text \<open>
  Claim C7. After \<^verbatim>\<open>clear(symbol)\<close> the symbol's attribute set is empty and
  dispatch on the symbol returns \<open>Unchanged\<close> for every expression, so no rule of
  it fires; the definitions of all other symbols are as before.
\<close>

theorem clear_resets_symbol:
  "get_attributes symbol (clear symbol st) = {} \<and>
   dispatch (clear symbol st) symbol e ctx = Inr (Unchanged, ctx) \<and>
   (\<forall>other. other \<noteq> symbol \<longrightarrow> clear symbol st other = st other)"
  by (simp add: get_attributes_def clear_def get_or_create_def empty_Definition_def
      dispatch_def rules_at_def split: position.splits)


theorem clear_resets_symbol_witness:
  "dispatch builtin_store ''System`Environment''
       (Expression (Symbol ''System`Environment'') [String ''HOME'']) example_evaluation =
     Inr (Rewritten (String ''/root''), example_evaluation) \<and>
   dispatch (clear ''System`Environment'' builtin_store) ''System`Environment''
       (Expression (Symbol ''System`Environment'') [String ''HOME'']) example_evaluation =
     Inr (Unchanged, example_evaluation) \<and>
   get_attributes ''System`$MaxLengthIntStringConversion'' builtin_store = {Constant} \<and>
   get_attributes ''System`$MaxLengthIntStringConversion''
       (clear ''System`$MaxLengthIntStringConversion'' builtin_store) = {} \<and>
   ''System`$MaxLengthIntStringConversion'' \<noteq> ''System`Environment'' \<and>
   clear ''System`Environment'' builtin_store ''System`$MaxLengthIntStringConversion'' =
     builtin_store ''System`$MaxLengthIntStringConversion''"
proof -
  have before: "dispatch builtin_store ''System`Environment''
       (Expression (Symbol ''System`Environment'') [String ''HOME'']) example_evaluation =
     Inr (Rewritten (String ''/root''), example_evaluation)"
    by (simp add: dispatch_Environment Environment_eval_def example_evaluation_def
        fsencode_utf8_HOME del: fsencode_utf8.simps)
  have attrs: "get_attributes ''System`$MaxLengthIntStringConversion'' builtin_store = {Constant}"
    by (simp add: get_attributes_def get_or_create_def builtin_store_MaxLength)
  from clear_resets_symbol [of "''System`Environment''" builtin_store
      "Expression (Symbol ''System`Environment'') [String ''HOME'']" example_evaluation]
    clear_resets_symbol [of "''System`$MaxLengthIntStringConversion''" builtin_store
      "Expression (Symbol ''System`Environment'') [String ''HOME'']" example_evaluation]
    before attrs
  show ?thesis by simp
qed


end
